theory Spec2Isabelle
  imports Main "HOL-Library.Word"
begin

section \<open>Python values and errors\<close>

text \<open>
  The decoder of \<^verbatim>\<open>src/src/data.py\<close> is modelled function by function.
  A Python \<^verbatim>\<open>bytes\<close> object is a list of 8-bit words; reading one element gives
  a Python \<^verbatim>\<open>int\<close> between 0 and 255. Python integers are unbounded, hence \<open>int\<close>.
  Every exception the decoder can raise is a value of \<open>error\<close>, and a function that may
  raise returns \<open>error + 'a\<close>.
\<close>

datatype error = IndexError | StructError | ZeroDivisionError | OverflowError | ValueError

type_synonym byte = "8 word"
type_synonym bytes = "byte list"

definition bindE :: "error + 'a \<Rightarrow> ('a \<Rightarrow> error + 'b) \<Rightarrow> error + 'b" where
  "bindE m f = (case m of Inl e \<Rightarrow> Inl e | Inr a \<Rightarrow> f a)"

text \<open>\<^verbatim>\<open>data[i]\<close> for a literal index \<open>i \<ge> 0\<close>: raises IndexError out of range.\<close>

definition py_index :: "bytes \<Rightarrow> nat \<Rightarrow> error + int" where
  "py_index data i = (if i < length data then Inr (uint (data ! i)) else Inl IndexError)"

text \<open>
  \<^verbatim>\<open>data[i:j:1]\<close>: a negative bound counts from the end, then both bounds are
  clamped to \<open>[0, len(data)]\<close>; a slice never raises.
\<close>

definition slice_bound :: "nat \<Rightarrow> int \<Rightarrow> nat" where
  "slice_bound n i = (if i < 0 then nat (max (i + int n) 0) else min (nat i) n)"

definition py_slice :: "bytes \<Rightarrow> int \<Rightarrow> int \<Rightarrow> bytes" where
  "py_slice data i j =
     (let lo = slice_bound (length data) i; hi = slice_bound (length data) j
      in take (hi - lo) (drop lo data))"

section \<open>BytesUtils\<close>

definition get_uint32 :: "bytes \<Rightarrow> error + int" where
  "get_uint32 data =
     bindE (py_index data 0) (\<lambda>b0.
     bindE (py_index data 1) (\<lambda>b1.
     bindE (py_index data 2) (\<lambda>b2.
     bindE (py_index data 3) (\<lambda>b3.
       Inr (b0 + b1 * 256 + b2 * 65536 + b3 * 16777216)))))"

definition get_uint16 :: "bytes \<Rightarrow> error + int" where
  "get_uint16 data =
     bindE (py_index data 0) (\<lambda>b0.
     bindE (py_index data 1) (\<lambda>b1.
       Inr (b0 + b1 * 256)))"

text \<open>
  \<^verbatim>\<open>check_magic_pattern\<close>: the chain of \<^verbatim>\<open>and\<close> is evaluated left to right and
  stops at the first comparison that is false, so \<^verbatim>\<open>data[k]\<close> is read only when the
  \<open>k\<close> bytes before it matched.
\<close>

definition byte_is :: "bytes \<Rightarrow> nat \<Rightarrow> int \<Rightarrow> (error + int) \<Rightarrow> error + int" where
  "byte_is data k c rest = bindE (py_index data k) (\<lambda>b. if b = c then rest else Inr 0)"

definition check_magic_pattern :: "bytes \<Rightarrow> error + int" where
  "check_magic_pattern data =
     byte_is data 0 2 (byte_is data 1 1 (byte_is data 2 4 (byte_is data 3 3
    (byte_is data 4 6 (byte_is data 5 5 (byte_is data 6 8 (byte_is data 7 7 (Inr 1))))))))"

text \<open>
  The little-endian encoding of an unsigned integer on 4 and on 2 bytes
  (\<^verbatim>\<open>u.to_bytes(4, 'little')\<close>, \<^verbatim>\<open>u.to_bytes(2, 'little')\<close>), which the radar uses on the
  wire and \<open>get_uint32\<close>, \<open>get_uint16\<close> read back.
\<close>

definition to_bytes4_le :: "int \<Rightarrow> bytes" where
  "to_bytes4_le u =
     [word_of_int (u mod 256), word_of_int (u div 256 mod 256),
      word_of_int (u div 65536 mod 256), word_of_int (u div 16777216 mod 256)]"

definition to_bytes2_le :: "int \<Rightarrow> bytes" where
  "to_bytes2_le u = [word_of_int (u mod 256), word_of_int (u div 256 mod 256)]"

section \<open>MathUtils\<close>

text \<open>
  Python floats are kept abstract: the type \<open>'f\<close> stands for them and a record of
  operations stands for the float literals of the source, for \<^verbatim>\<open>struct.unpack('<f', b)\<close>
  on four bytes, and for the arithmetic and \<^verbatim>\<open>math\<close> functions the source calls.
  Division, \<^verbatim>\<open>**\<close> and \<^verbatim>\<open>math.sqrt\<close> can raise in Python, so they return
  \<open>error + 'f\<close>.
\<close>

record 'f float_ops =
  lit_zero :: 'f
  lit_ninety :: 'f
  lit_minus_ninety :: 'f
  ONEHUNDRENDEIGHTYOVERPI :: 'f
  float_of_bytes :: "bytes \<Rightarrow> 'f"
  f_eq :: "'f \<Rightarrow> 'f \<Rightarrow> bool"
  f_lt :: "'f \<Rightarrow> 'f \<Rightarrow> bool"
  f_add :: "'f \<Rightarrow> 'f \<Rightarrow> 'f"
  f_mul :: "'f \<Rightarrow> 'f \<Rightarrow> 'f"
  f_div :: "'f \<Rightarrow> 'f \<Rightarrow> error + 'f"
  f_square :: "'f \<Rightarrow> error + 'f"
  f_sqrt :: "'f \<Rightarrow> error + 'f"
  f_atan :: "'f \<Rightarrow> 'f"

definition radians_to_degrees :: "'f float_ops \<Rightarrow> 'f \<Rightarrow> 'f" where
  "radians_to_degrees ops angle = f_mul ops (ONEHUNDRENDEIGHTYOVERPI ops) angle"

definition get_range :: "'f float_ops \<Rightarrow> 'f \<Rightarrow> 'f \<Rightarrow> 'f \<Rightarrow> error + 'f" where
  "get_range ops x y z =
     bindE (f_square ops x) (\<lambda>xx.
     bindE (f_square ops y) (\<lambda>yy.
     bindE (f_square ops z) (\<lambda>zz.
       f_sqrt ops (f_add ops (f_add ops xx yy) zz))))"

definition get_azimuth :: "'f float_ops \<Rightarrow> 'f \<Rightarrow> 'f \<Rightarrow> error + 'f" where
  "get_azimuth ops x y =
     (if \<not> f_eq ops y (lit_zero ops)
      then bindE (f_div ops x y) (\<lambda>q. Inr (radians_to_degrees ops (f_atan ops q)))
      else if f_lt ops x (lit_zero ops) then Inr (lit_minus_ninety ops)
      else Inr (lit_ninety ops))"

definition get_elev_angle :: "'f float_ops \<Rightarrow> 'f \<Rightarrow> 'f \<Rightarrow> 'f \<Rightarrow> error + 'f" where
  "get_elev_angle ops x y z =
     (if f_eq ops x (lit_zero ops) \<and> f_eq ops y (lit_zero ops)
      then (if f_lt ops z (lit_zero ops) then Inr (lit_minus_ninety ops)
            else Inr (lit_ninety ops))
      else
        bindE (f_square ops x) (\<lambda>xx.
        bindE (f_square ops y) (\<lambda>yy.
        bindE (f_sqrt ops (f_add ops xx yy)) (\<lambda>r.
        bindE (f_div ops z r) (\<lambda>q.
          Inr (radians_to_degrees ops (f_atan ops q)))))))"

section \<open>PacketInfo and DetectedObject\<close>

datatype ParserStatus = TC_PASS | TC_FAIL

record PacketInfo =
  header_start_index :: int
  packet_length :: int
  number_detected_objects :: int
  number_tlv :: int
  frame_number :: int
  sub_frame_number :: int
  time_cpu_cycles :: int

text \<open>\<^verbatim>\<open>PacketInfo.__init__\<close>, with its parameters in the order of the source.\<close>

definition PacketInfo_init :: "int \<Rightarrow> int \<Rightarrow> int \<Rightarrow> int \<Rightarrow> int \<Rightarrow> int \<Rightarrow> int \<Rightarrow> PacketInfo" where
  "PacketInfo_init hsi plen ndo ntlv fnum sfnum cycles =
     \<lparr>header_start_index = hsi, packet_length = plen, number_detected_objects = ndo,
      number_tlv = ntlv, frame_number = fnum, sub_frame_number = sfnum,
      time_cpu_cycles = cycles\<rparr>"

text \<open>\<^verbatim>\<open>PacketInfo()\<close>: every parameter at its default, \<open>-1\<close>.\<close>

definition PacketInfo_default :: PacketInfo where
  "PacketInfo_default = PacketInfo_init (-1) (-1) (-1) (-1) (-1) (-1) (-1)"

text \<open>
  An attribute of a DetectedObject holds whatever Python object was assigned to it:
  a float, an int (the quality block stores the results of \<open>get_uint16\<close>), or the
  built-in class \<^verbatim>\<open>range\<close>.
\<close>

datatype 'f pyval = PyFloat 'f | PyInt int | PyBuiltinRange

record 'f DetectedObject =
  obj_x :: "'f pyval"
  obj_y :: "'f pyval"
  obj_z :: "'f pyval"
  obj_v :: "'f pyval"
  computed_range :: "'f pyval"
  azimuth :: "'f pyval"
  elev_angle :: "'f pyval"
  snr :: "'f pyval"
  noise :: "'f pyval"

text \<open>
  \<^verbatim>\<open>DetectedObject.__init__\<close>. Its sixth statement is
  \<^verbatim>\<open>self.computed_range = range\<close>: the parameter is called \<^verbatim>\<open>computed_range\<close>, so the
  name \<^verbatim>\<open>range\<close> is the built-in class, and that is what the attribute receives.
\<close>

definition DetectedObject_init ::
  "'f pyval \<Rightarrow> 'f pyval \<Rightarrow> 'f pyval \<Rightarrow> 'f pyval \<Rightarrow> 'f pyval \<Rightarrow> 'f pyval \<Rightarrow> 'f pyval \<Rightarrow>
   'f pyval \<Rightarrow> 'f pyval \<Rightarrow> 'f DetectedObject" where
  "DetectedObject_init x y z v computed_range_arg azimuth_arg elev_angle_arg snr_arg noise_arg =
     \<lparr>obj_x = x, obj_y = y, obj_z = z, obj_v = v, computed_range = PyBuiltinRange,
      azimuth = azimuth_arg, elev_angle = elev_angle_arg, snr = snr_arg, noise = noise_arg\<rparr>"

text \<open>\<^verbatim>\<open>DetectedObject()\<close>: every parameter at its default, \<open>0.0\<close>.\<close>

definition DetectedObject_default :: "'f float_ops \<Rightarrow> 'f DetectedObject" where
  "DetectedObject_default ops =
     (let zero = PyFloat (lit_zero ops)
      in DetectedObject_init zero zero zero zero zero zero zero zero zero)"

definition tlv_type_1 ::
  "'f DetectedObject \<Rightarrow> 'f \<Rightarrow> 'f \<Rightarrow> 'f \<Rightarrow> 'f \<Rightarrow> 'f \<Rightarrow> 'f \<Rightarrow> 'f \<Rightarrow> 'f DetectedObject" where
  "tlv_type_1 self x y z v rng az el =
     self\<lparr>obj_x := PyFloat x, obj_y := PyFloat y, obj_z := PyFloat z, obj_v := PyFloat v,
          computed_range := PyFloat rng, azimuth := PyFloat az, elev_angle := PyFloat el\<rparr>"

definition tlv_type_7 :: "'f DetectedObject \<Rightarrow> int \<Rightarrow> int \<Rightarrow> 'f DetectedObject" where
  "tlv_type_7 self snr_arg noise_arg = self\<lparr>snr := PyInt snr_arg, noise := PyInt noise_arg\<rparr>"

section \<open>PacketHandler\<close>

text \<open>
  The scan of \<^verbatim>\<open>_parse_packet_info\<close>: \<^verbatim>\<open>for index in range(num_bytes)\<close>, leaving the
  loop at the first index where \<open>check_magic_pattern\<close> returns 1. The result is the value
  of \<^verbatim>\<open>header_start_index\<close> after the loop, \<open>-1\<close> when no index matched.
\<close>

fun scan_loop :: "bytes \<Rightarrow> nat list \<Rightarrow> error + int" where
  "scan_loop data [] = Inr (- 1)"
| "scan_loop data (index # rest) =
     bindE (check_magic_pattern (py_slice data (int index) (int index + 8))) (\<lambda>found.
       if found = 1 then Inr (int index) else scan_loop data rest)"

definition find_header_start :: "bytes \<Rightarrow> error + int" where
  "find_header_start data = scan_loop data [0..<length data]"

definition parse_packet_info :: "bytes \<Rightarrow> error + PacketInfo" where
  "parse_packet_info data =
     bindE (find_header_start data) (\<lambda>hsi.
       if hsi \<noteq> - 1 then
         bindE (get_uint32 (py_slice data (hsi + 12) (hsi + 16))) (\<lambda>plen.
         bindE (get_uint32 (py_slice data (hsi + 20) (hsi + 24))) (\<lambda>fnum.
         bindE (get_uint32 (py_slice data (hsi + 24) (hsi + 28))) (\<lambda>cycles.
         bindE (get_uint32 (py_slice data (hsi + 28) (hsi + 32))) (\<lambda>ndo.
         bindE (get_uint32 (py_slice data (hsi + 32) (hsi + 36))) (\<lambda>ntlv.
         bindE (get_uint32 (py_slice data (hsi + 36) (hsi + 40))) (\<lambda>sfnum.
           Inr (PacketInfo_init hsi plen ndo ntlv fnum sfnum cycles)))))))
       else Inr PacketInfo_default)"

definition get_status :: "bytes \<Rightarrow> PacketInfo \<Rightarrow> error + ParserStatus" where
  "get_status data packet_info =
     (if header_start_index packet_info = - 1 then Inr TC_FAIL
      else if number_detected_objects packet_info < 0 then Inr TC_FAIL
      else if sub_frame_number packet_info > 3 then Inr TC_FAIL
      else if header_start_index packet_info + packet_length packet_info > int (length data)
        then Inr TC_FAIL
      else
        (let next_header_start_index =
               header_start_index packet_info + packet_length packet_info
         in if next_header_start_index + 8 < packet_length packet_info
            then bindE (check_magic_pattern
                          (py_slice data next_header_start_index (next_header_start_index + 8)))
                   (\<lambda>found. if found = 0 then Inr TC_FAIL else Inr TC_PASS)
            else Inr TC_PASS))"

text \<open>
  \<^verbatim>\<open>unpack('<f', decode(hexlify(b), 'hex'))[0]\<close>: \<^verbatim>\<open>hexlify\<close> followed by the
  \<^verbatim>\<open>hex\<close> decoding gives \<open>b\<close> back, and \<^verbatim>\<open>unpack\<close> raises \<^verbatim>\<open>struct.error\<close>
  unless \<open>b\<close> has exactly four bytes.
\<close>

definition unpack_float :: "'f float_ops \<Rightarrow> bytes \<Rightarrow> error + 'f" where
  "unpack_float ops b = (if length b = 4 then Inr (float_of_bytes ops b) else Inl StructError)"

text \<open>\<^verbatim>\<open>detected_objects[obj].method(...)\<close>: the object at index \<open>obj\<close> is updated in place.\<close>

definition update_object ::
  "'f DetectedObject list \<Rightarrow> nat \<Rightarrow> ('f DetectedObject \<Rightarrow> 'f DetectedObject) \<Rightarrow>
   error + 'f DetectedObject list" where
  "update_object detected_objects obj f =
     (if obj < length detected_objects
      then Inr (detected_objects[obj := f (detected_objects ! obj)])
      else Inl IndexError)"

text \<open>
  The first loop of \<^verbatim>\<open>_parse_tlvs\<close>,
  \<^verbatim>\<open>for _ in range(n): detected_objects.append(DetectedObject())\<close>.
\<close>

fun allocate_objects ::
  "'f float_ops \<Rightarrow> nat list \<Rightarrow> 'f DetectedObject list \<Rightarrow> 'f DetectedObject list" where
  "allocate_objects ops [] detected_objects = detected_objects"
| "allocate_objects ops (i # rest) detected_objects =
     allocate_objects ops rest (detected_objects @ [DetectedObject_default ops])"

text \<open>
  The loop over the kinematics block; the loop state is the list of objects and
  \<^verbatim>\<open>offset\<close>.
\<close>

fun tlv1_loop ::
  "'f float_ops \<Rightarrow> bytes \<Rightarrow> int \<Rightarrow> nat list \<Rightarrow> 'f DetectedObject list \<times> int \<Rightarrow>
   error + ('f DetectedObject list \<times> int)" where
  "tlv1_loop ops data tlv_start [] st = Inr st"
| "tlv1_loop ops data tlv_start (obj # rest) (detected_objects, offset) =
     bindE (unpack_float ops
              (py_slice data (tlv_start + offset) (tlv_start + offset + 4))) (\<lambda>x.
     bindE (unpack_float ops
              (py_slice data (tlv_start + offset + 4) (tlv_start + offset + 8))) (\<lambda>y.
     bindE (unpack_float ops
              (py_slice data (tlv_start + offset + 8) (tlv_start + offset + 12))) (\<lambda>z.
     bindE (unpack_float ops
              (py_slice data (tlv_start + offset + 12) (tlv_start + offset + 16))) (\<lambda>v.
     bindE (get_range ops x y z) (\<lambda>rng.
     bindE (get_azimuth ops x y) (\<lambda>az.
     bindE (get_elev_angle ops x y z) (\<lambda>el.
     bindE (update_object detected_objects obj (\<lambda>self. tlv_type_1 self x y z v rng az el))
       (\<lambda>detected_objects'.
         tlv1_loop ops data tlv_start rest (detected_objects', offset + 16)))))))))"

text \<open>The loop over the quality block.\<close>

fun tlv7_loop ::
  "bytes \<Rightarrow> int \<Rightarrow> nat list \<Rightarrow> 'f DetectedObject list \<times> int \<Rightarrow>
   error + ('f DetectedObject list \<times> int)" where
  "tlv7_loop data tlv_start [] st = Inr st"
| "tlv7_loop data tlv_start (obj # rest) (detected_objects, offset) =
     bindE (get_uint16
              (py_slice data (tlv_start + offset + 0) (tlv_start + offset + 2))) (\<lambda>snr_val.
     bindE (get_uint16
              (py_slice data (tlv_start + offset + 2) (tlv_start + offset + 4))) (\<lambda>noise_val.
     bindE (update_object detected_objects obj (\<lambda>self. tlv_type_7 self snr_val noise_val))
       (\<lambda>detected_objects'.
         tlv7_loop data tlv_start rest (detected_objects', offset + 4))))"

text \<open>\<^verbatim>\<open>range(n)\<close> for a Python int \<open>n\<close>: empty when \<open>n \<le> 0\<close>.\<close>

definition py_range :: "int \<Rightarrow> nat list" where
  "py_range n = [0..<nat n]"

definition parse_tlvs ::
  "'f float_ops \<Rightarrow> bytes \<Rightarrow> PacketInfo \<Rightarrow> error + 'f DetectedObject list" where
  "parse_tlvs ops data packet_info =
     (let detected_objects =
            allocate_objects ops (py_range (number_detected_objects packet_info)) [];
          tlv_start = header_start_index packet_info + 40
      in
        bindE (get_uint32 (py_slice data (tlv_start + 0) (tlv_start + 4))) (\<lambda>tlv_type.
        bindE (get_uint32 (py_slice data (tlv_start + 4) (tlv_start + 8))) (\<lambda>tlv_len.
        bindE (if tlv_type = 1 \<and> tlv_len < packet_length packet_info
               then tlv1_loop ops data tlv_start
                      (py_range (number_detected_objects packet_info)) (detected_objects, 8)
               else Inr (detected_objects, 8)) (\<lambda>(detected_objects1, offset1).
        (let tlv_start2 = tlv_start + 8 + tlv_len
         in
           bindE (get_uint32 (py_slice data (tlv_start2 + 0) (tlv_start2 + 4))) (\<lambda>tlv_type2.
           bindE (get_uint32 (py_slice data (tlv_start2 + 4) (tlv_start2 + 8))) (\<lambda>tlv_len2.
           bindE (if tlv_type2 = 7
                  then tlv7_loop data tlv_start2
                         (py_range (number_detected_objects packet_info)) (detected_objects1, 8)
                  else Inr (detected_objects1, 8)) (\<lambda>(detected_objects2, offset2).
             Inr detected_objects2))))))))"

text \<open>
  \<^verbatim>\<open>PacketHandler.parser\<close>, the decode entry point: \<open>Inr None\<close> is the Python
  \<^verbatim>\<open>None\<close>, \<open>Inr (Some objs)\<close> a returned list, \<open>Inl e\<close> an exception that leaves the
  function.
\<close>

definition parser :: "'f float_ops \<Rightarrow> bytes \<Rightarrow> error + 'f DetectedObject list option" where
  "parser ops data =
     bindE (parse_packet_info data) (\<lambda>packet_info.
     bindE (get_status data packet_info) (\<lambda>status.
       if status = TC_PASS
       then bindE (parse_tlvs ops data packet_info) (\<lambda>objs. Inr (Some objs))
       else Inr None))"

section \<open>Vocabulary of the statements\<close>

text \<open>
  The eight bytes \<open>check_magic_pattern\<close> compares against, as a list, and what it means
  for a buffer to hold them at offset \<open>i\<close>: all eight bytes are present and equal
  to the pattern.
\<close>

definition magic_pattern :: bytes where
  "magic_pattern = [2, 1, 4, 3, 6, 5, 8, 7]"

definition pattern_at :: "bytes \<Rightarrow> nat \<Rightarrow> bool" where
  "pattern_at data i = (i + 8 \<le> length data \<and> take 8 (drop i data) = magic_pattern)"

text \<open>The unsigned 32-bit little-endian value of the four bytes \<open>data[k], ..., data[k+3]\<close>.\<close>

definition u32_le_at :: "bytes \<Rightarrow> nat \<Rightarrow> int" where
  "u32_le_at data k =
     uint (data ! k) + uint (data ! (k + 1)) * 256 + uint (data ! (k + 2)) * 65536
       + uint (data ! (k + 3)) * 16777216"

text \<open>
  A buffer with one byte of noise, then a 40-byte header: the pattern, a version word,
  \<open>packet_length = 0x04030201\<close>, a platform word, \<open>frame_number = 7\<close>,
  \<open>time_cpu_cycles = 0x0A0B0C0D\<close>, \<open>number_detected_objects = 2\<close>, \<open>number_tlv = 2\<close>
  and \<open>sub_frame_number = 1\<close>.
\<close>

definition sample_frame :: bytes where
  "sample_frame =
     [0xAA,
      2, 1, 4, 3, 6, 5, 8, 7,
      0x04, 0x00, 0x05, 0x03,
      0x01, 0x02, 0x03, 0x04,
      0x43, 0x68, 0x0A, 0x00,
      7, 0, 0, 0,
      0x0D, 0x0C, 0x0B, 0x0A,
      2, 0, 0, 0,
      2, 0, 0, 0,
      1, 0, 0, 0]"

text \<open>A 48-byte buffer that holds the pattern at offset 0 and again at offset 8.\<close>

definition two_sync_frame :: bytes where
  "two_sync_frame =
     [2, 1, 4, 3, 6, 5, 8, 7,
      2, 1, 4, 3, 6, 5, 8, 7,
      0, 0, 0, 0, 0, 0, 0, 0,
      0, 0, 0, 0, 0, 0, 0, 0,
      0, 0, 0, 0, 0, 0, 0, 0,
      0, 0, 0, 0, 0, 0, 0, 0]"



text \<open>A header at offset 0 that declares a frame of 48 bytes.\<close>

definition full_frame_header :: PacketInfo where
  "full_frame_header = PacketInfo_init 0 48 2 2 7 1 0"

text \<open>
  A complete 56-byte frame: header at offset 0 with \<open>packet_length = 56\<close> and one
  detected object, followed by two empty blocks of types 2 and 3.
\<close>

definition unknown_tlv_frame :: bytes where
  "unknown_tlv_frame =
     [2, 1, 4, 3, 6, 5, 8, 7,
      0x04, 0x00, 0x05, 0x03,
      56, 0, 0, 0,
      0x43, 0x68, 0x0A, 0x00,
      7, 0, 0, 0,
      0x0D, 0x0C, 0x0B, 0x0A,
      1, 0, 0, 0,
      2, 0, 0, 0,
      0, 0, 0, 0,
      2, 0, 0, 0,  0, 0, 0, 0,
      3, 0, 0, 0,  0, 0, 0, 0]"

text \<open>
  A complete 40-byte frame: header at offset 0 with \<open>packet_length = 40\<close>, no detected
  object and no block after the header.
\<close>

definition header_only_frame :: bytes where
  "header_only_frame =
     [2, 1, 4, 3, 6, 5, 8, 7,
      0x04, 0x00, 0x05, 0x03,
      40, 0, 0, 0,
      0x43, 0x68, 0x0A, 0x00,
      7, 0, 0, 0,
      0x0D, 0x0C, 0x0B, 0x0A,
      0, 0, 0, 0,
      0, 0, 0, 0,
      0, 0, 0, 0]"

text \<open>A buffer that ends with the first two bytes of the pattern.\<close>

definition partial_pattern_buffer :: bytes where
  "partial_pattern_buffer = [0x00, 0x02, 0x01]"

section \<open>Basic facts\<close>

lemma bindE_simps: "bindE (Inl e) f = Inl e" "bindE (Inr a) f = f a"
  by (simp_all add: bindE_def)

lemma get_uint32_four:
  "get_uint32 [b0, b1, b2, b3] =
     Inr (uint b0 + uint b1 * 256 + uint b2 * 65536 + uint b3 * 16777216)"
  by (simp add: get_uint32_def py_index_def bindE_simps)

lemma get_uint16_two: "get_uint16 [b0, b1] = Inr (uint b0 + uint b1 * 256)"
  by (simp add: get_uint16_def py_index_def bindE_simps)

lemma uint_byte_of_mod: "uint (word_of_int (k mod 256) :: byte) = k mod 256"
  by (simp add: uint_word_of_int take_bit_eq_mod)

section \<open>Integer round trip\<close>

lemma le16_arith:
  assumes "0 \<le> u" "u < 65536"
  shows "u mod 256 + u div 256 mod 256 * 256 = (u::int)"
proof -
  have "u div 256 < 256" using assms by simp
  moreover have "0 \<le> u div 256" using assms by simp
  ultimately have "u div 256 mod 256 = u div 256" by simp
  then show ?thesis by simp
qed

lemma le32_arith:
  assumes "0 \<le> u" "u < 4294967296"
  shows "u mod 256 + u div 256 mod 256 * 256 + u div 65536 mod 256 * 65536
           + u div 16777216 mod 256 * 16777216 = (u::int)"
proof -
  define q1 where "q1 = u div 256"
  define q2 where "q2 = q1 div 256"
  define q3 where "q3 = q2 div 256"
  have b: "u div 65536 = q2"
    unfolding q2_def q1_def by (simp add: div_mult2_eq[symmetric])
  have c: "u div 16777216 = q3"
    unfolding q3_def q2_def q1_def by (simp add: div_mult2_eq[symmetric])
  have a: "q3 mod 256 = q3"
    using assms c[symmetric] by simp
  have e1: "u = u mod 256 + q1 * 256" unfolding q1_def by simp
  have e2: "q1 = q1 mod 256 + q2 * 256" unfolding q2_def by simp
  have e3: "q2 = q2 mod 256 + q3 * 256" unfolding q3_def by simp
  have "u mod 256 + q1 mod 256 * 256 + q2 mod 256 * 65536 + q3 mod 256 * 16777216 = u"
    using e1 e2 e3 a by linarith
  then show ?thesis unfolding b c q1_def .
qed

lemma get_uint32_to_bytes4_le:
  assumes "0 \<le> u" "u < 2 ^ 32"
  shows "get_uint32 (to_bytes4_le u) = Inr u"
proof -
  have "u < 4294967296" using assms(2) by simp
  from le32_arith[OF assms(1) this] show ?thesis
    unfolding to_bytes4_le_def get_uint32_four uint_byte_of_mod by (rule arg_cong)
qed

lemma get_uint16_to_bytes2_le:
  assumes "0 \<le> u" "u < 2 ^ 16"
  shows "get_uint16 (to_bytes2_le u) = Inr u"
proof -
  have "u < 65536" using assms(2) by simp
  from le16_arith[OF assms(1) this] show ?thesis
    unfolding to_bytes2_le_def get_uint16_two uint_byte_of_mod by (rule arg_cong)
qed

text \<open>
  Claim C8. For every \<open>u\<close> in \<open>[0, 2^32)\<close>, \<open>get_uint32\<close> applied to the four
  little-endian bytes of \<open>u\<close> returns \<open>u\<close>, and for every \<open>w\<close> in \<open>[0, 2^16)\<close>,
  \<open>get_uint16\<close> applied to the two little-endian bytes of \<open>w\<close> returns \<open>w\<close>.
\<close>

theorem uint_le_round_trip:
  "(0 \<le> u \<and> u < 2 ^ 32 \<longrightarrow> get_uint32 (to_bytes4_le u) = Inr u) \<and>
   (0 \<le> w \<and> w < 2 ^ 16 \<longrightarrow> get_uint16 (to_bytes2_le w) = Inr w)"
  using get_uint32_to_bytes4_le[of u] get_uint16_to_bytes2_le[of w] by blast

theorem uint_le_round_trip_witness:
  "(0::int) \<le> 305419896 \<and> (305419896::int) < 2 ^ 32 \<and>
   get_uint32 (to_bytes4_le 305419896) = Inr 305419896 \<and>
   to_bytes4_le 305419896 = [0x78, 0x56, 0x34, 0x12] \<and>
   (0::int) \<le> 43981 \<and> (43981::int) < 2 ^ 16 \<and>
   get_uint16 (to_bytes2_le 43981) = Inr 43981 \<and>
   to_bytes2_le 43981 = [0xCD, 0xAB]"
  using uint_le_round_trip[of 305419896 43981]
  by (simp add: to_bytes4_le_def to_bytes2_le_def)

section \<open>Slices and the pattern check\<close>

lemma uint_byte_eq_iff:
  "(uint (b::byte) = 1) = (b = 1)" "(uint b = 2) = (b = 2)" "(uint b = 3) = (b = 3)"
  "(uint b = 4) = (b = 4)" "(uint b = 5) = (b = 5)" "(uint b = 6) = (b = 6)"
  "(uint b = 7) = (b = 7)" "(uint b = 8) = (b = 8)"
  by (simp_all add: word_uint_eq_iff)

lemma slice_bound_nat: "slice_bound n (int i) = min i n"
  by (simp add: slice_bound_def)

lemma take_min_length: "take (min k (length xs)) xs = take k xs"
  by (cases "k \<le> length xs") (simp_all add: min_def)

lemma py_slice_nat: "py_slice data (int i) (int i + int k) = take k (drop i data)"
proof -
  have eq: "int i + int k = int (i + k)" by simp
  show ?thesis
  proof (cases "i \<le> length data")
    case True
    then have "min (i + k) (length data) - min i (length data) = min k (length (drop i data))"
      by (simp add: min_def) arith
    then show ?thesis
      unfolding py_slice_def Let_def eq slice_bound_nat
      using True by (simp only: take_min_length min_absorb1)
  next
    case False
    then show ?thesis
      unfolding py_slice_def Let_def eq slice_bound_nat by simp
  qed
qed

lemma py_slice_numeral:
  "py_slice data (int i) (int i + numeral k) = take (numeral k) (drop i data)"
  using py_slice_nat[of data i "numeral k"] by simp

lemma check_magic_pattern_eight:
  "check_magic_pattern [b0, b1, b2, b3, b4, b5, b6, b7] =
     Inr (if [b0, b1, b2, b3, b4, b5, b6, b7] = magic_pattern then 1 else 0)"
  by (simp add: check_magic_pattern_def byte_is_def py_index_def bindE_simps magic_pattern_def
      uint_byte_eq_iff)

lemma length_eight:
  assumes "length (w::'a list) = 8"
  obtains b0 b1 b2 b3 b4 b5 b6 b7 where "w = [b0, b1, b2, b3, b4, b5, b6, b7]"
proof -
  from assms have "length w = Suc (Suc (Suc (Suc (Suc (Suc (Suc (Suc 0)))))))" by simp
  then show ?thesis
    by (auto simp: length_Suc_conv intro: that)
qed

lemma check_magic_pattern_full:
  assumes "length w = 8"
  shows "check_magic_pattern w = Inr (if w = magic_pattern then 1 else 0)"
proof -
  from assms obtain b0 b1 b2 b3 b4 b5 b6 b7 where "w = [b0, b1, b2, b3, b4, b5, b6, b7]"
    by (rule length_eight)
  then show ?thesis by (simp only: check_magic_pattern_eight)
qed

lemma check_window:
  assumes "i + 8 \<le> length data"
  shows "check_magic_pattern (py_slice data (int i) (int i + 8)) =
           Inr (if pattern_at data i then 1 else 0)"
proof -
  have "length (take 8 (drop i data)) = 8" using assms by simp
  from check_magic_pattern_full[OF this] show ?thesis
    using assms by (simp add: py_slice_numeral pattern_at_def)
qed

section \<open>The scan for the pattern\<close>

lemma scan_loop_first:
  assumes "pattern_at data i" and "\<forall>j<i. \<not> pattern_at data j" and "a \<le> i" and "i < n"
  shows "scan_loop data [a..<n] = Inr (int i)"
  using assms(3)
proof (induction "i - a" arbitrary: a)
  case 0
  then have "a = i" by simp
  moreover have "i + 8 \<le> length data" using assms(1) by (simp add: pattern_at_def)
  ultimately show ?case
    using assms(1,4) by (simp add: upt_conv_Cons check_window bindE_simps)
next
  case (Suc d)
  then have lt: "a < i" by simp
  then have "a + 8 \<le> length data" using assms(1) by (simp add: pattern_at_def)
  moreover have "\<not> pattern_at data a" using assms(2) lt by simp
  moreover have "scan_loop data [Suc a..<n] = Inr (int i)"
    using Suc.hyps(1)[of "Suc a"] Suc.hyps(2) lt by simp
  ultimately show ?case
    using lt assms(4) by (simp add: upt_conv_Cons check_window bindE_simps)
qed

lemma find_header_start_first:
  assumes "pattern_at data i" and "\<forall>j<i. \<not> pattern_at data j"
  shows "find_header_start data = Inr (int i)"
proof -
  have "i < length data" using assms(1) by (simp add: pattern_at_def)
  then show ?thesis
    unfolding find_header_start_def using scan_loop_first[OF assms, of 0 "length data"] by simp
qed

section \<open>The header fields\<close>

lemma take4_drop:
  assumes "k + 4 \<le> length xs"
  shows "take 4 (drop k xs) = [xs ! k, xs ! (k + 1), xs ! (k + 2), xs ! (k + 3)]"
proof (rule nth_equalityI)
  show "length (take 4 (drop k xs)) = length [xs ! k, xs ! (k + 1), xs ! (k + 2), xs ! (k + 3)]"
    using assms by simp
next
  fix i assume "i < length (take 4 (drop k xs))"
  then have "i < 4" by simp
  then consider "i = 0" | "i = 1" | "i = 2" | "i = 3" by linarith
  then show "take 4 (drop k xs) ! i = [xs ! k, xs ! (k + 1), xs ! (k + 2), xs ! (k + 3)] ! i"
    using assms by cases simp_all
qed

lemma get_uint32_field:
  assumes "b = a + 4" and "i + b \<le> length data"
  shows "get_uint32 (py_slice data (int i + int a) (int i + int b)) =
           Inr (u32_le_at data (i + a))"
proof -
  have "py_slice data (int (i + a)) (int (i + a) + int 4) = take 4 (drop (i + a) data)"
    by (rule py_slice_nat)
  moreover have "int (i + a) + int 4 = int i + int b" using assms(1) by simp
  moreover have "int (i + a) = int i + int a" by simp
  ultimately have "py_slice data (int i + int a) (int i + int b) = take 4 (drop (i + a) data)"
    by (simp only:)
  moreover have "i + a + 4 \<le> length data" using assms by simp
  ultimately show ?thesis
    using take4_drop[of "i + a" data] by (simp add: get_uint32_four u32_le_at_def)
qed

lemma parse_packet_info_located:
  assumes "find_header_start data = Inr (int i)" and "i + 40 \<le> length data"
  shows "parse_packet_info data =
           Inr (PacketInfo_init (int i) (u32_le_at data (i + 12)) (u32_le_at data (i + 28))
                  (u32_le_at data (i + 32)) (u32_le_at data (i + 20))
                  (u32_le_at data (i + 36)) (u32_le_at data (i + 24)))"
proof -
  have f: "get_uint32 (py_slice data (int i + 12) (int i + 16)) = Inr (u32_le_at data (i + 12))"
          "get_uint32 (py_slice data (int i + 20) (int i + 24)) = Inr (u32_le_at data (i + 20))"
          "get_uint32 (py_slice data (int i + 24) (int i + 28)) = Inr (u32_le_at data (i + 24))"
          "get_uint32 (py_slice data (int i + 28) (int i + 32)) = Inr (u32_le_at data (i + 28))"
          "get_uint32 (py_slice data (int i + 32) (int i + 36)) = Inr (u32_le_at data (i + 32))"
          "get_uint32 (py_slice data (int i + 36) (int i + 40)) = Inr (u32_le_at data (i + 36))"
    using get_uint32_field[of 16 12 i data] get_uint32_field[of 24 20 i data]
      get_uint32_field[of 28 24 i data] get_uint32_field[of 32 28 i data]
      get_uint32_field[of 36 32 i data] get_uint32_field[of 40 36 i data] assms(2)
    by simp_all
  have "int i \<noteq> - 1" by simp
  then show ?thesis
    unfolding parse_packet_info_def assms(1) bindE_simps f by simp
qed

lemma parse_packet_info_start:
  assumes "parse_packet_info data = Inr p" and "find_header_start data = Inr h"
  shows "header_start_index p = h"
  using assms
  by (auto simp: parse_packet_info_def bindE_def PacketInfo_init_def PacketInfo_default_def
      split: sum.splits if_splits)

lemma sample_frame_pattern:
  "pattern_at sample_frame 1" "\<forall>j<1. \<not> pattern_at sample_frame j"
  by (simp_all add: pattern_at_def sample_frame_def magic_pattern_def)

text \<open>
  Claim C6. When a buffer holds the pattern at index \<open>i\<close> and at no smaller index, the
  scan of the header parser leaves \<open>header_start_index = i\<close>; every header the parser
  returns for that buffer carries this index, and it does return one when 40 bytes are
  available from \<open>i\<close>.
\<close>

theorem scan_finds_first_pattern:
  assumes "pattern_at data i" and "\<forall>j<i. \<not> pattern_at data j"
  shows "find_header_start data = Inr (int i) \<and>
         (\<forall>p. parse_packet_info data = Inr p \<longrightarrow> header_start_index p = int i) \<and>
         (i + 40 \<le> length data \<longrightarrow>
            (\<exists>p. parse_packet_info data = Inr p \<and> header_start_index p = int i))"
proof -
  have start: "find_header_start data = Inr (int i)"
    using assms by (rule find_header_start_first)
  have "\<And>p. parse_packet_info data = Inr p \<Longrightarrow> header_start_index p = int i"
    using start parse_packet_info_start by blast
  moreover have "i + 40 \<le> length data \<Longrightarrow>
      \<exists>p. parse_packet_info data = Inr p \<and> header_start_index p = int i"
    using parse_packet_info_located[OF start] by (simp add: PacketInfo_init_def)
  ultimately show ?thesis using start by blast
qed

theorem scan_finds_first_pattern_witness:
  "pattern_at sample_frame 1 \<and> \<not> pattern_at sample_frame 0 \<and>
   find_header_start sample_frame = Inr 1 \<and>
   (\<exists>p. parse_packet_info sample_frame = Inr p \<and> header_start_index p = 1)"
proof -
  have len: "1 + 40 \<le> length sample_frame" by (simp add: sample_frame_def)
  have "\<not> pattern_at sample_frame 0"
    by (simp add: pattern_at_def sample_frame_def magic_pattern_def)
  then show ?thesis
    using scan_finds_first_pattern[OF sample_frame_pattern] len sample_frame_pattern(1)
    by simp
qed

text \<open>
  Claim C7, as amended. When a buffer holds its first pattern at offset \<open>k\<close> and has
  at least 40 bytes from \<open>k\<close>, the header parser returns the header whose
  \<open>header_start_index\<close> is \<open>k\<close> and whose fields are the unsigned 32-bit
  little-endian values of the buffer at \<open>[k+12, k+16)\<close> (\<open>packet_length\<close>),
  \<open>[k+20, k+24)\<close> (\<open>frame_number\<close>), \<open>[k+24, k+28)\<close> (\<open>time_cpu_cycles\<close>),
  \<open>[k+28, k+32)\<close> (\<open>number_detected_objects\<close>), \<open>[k+32, k+36)\<close> (\<open>number_tlv\<close>)
  and \<open>[k+36, k+40)\<close> (\<open>sub_frame_number\<close>), each under its own name.
\<close>

theorem header_fields_at_first_pattern:
  assumes "pattern_at data k" and "\<forall>j<k. \<not> pattern_at data j" and "k + 40 \<le> length data"
  shows "parse_packet_info data =
           Inr \<lparr>header_start_index = int k,
                packet_length = u32_le_at data (k + 12),
                number_detected_objects = u32_le_at data (k + 28),
                number_tlv = u32_le_at data (k + 32),
                frame_number = u32_le_at data (k + 20),
                sub_frame_number = u32_le_at data (k + 36),
                time_cpu_cycles = u32_le_at data (k + 24)\<rparr>"
proof -
  have "find_header_start data = Inr (int k)"
    using assms(1,2) by (rule find_header_start_first)
  from parse_packet_info_located[OF this assms(3)] show ?thesis
    by (simp only: PacketInfo_init_def)
qed

theorem header_fields_at_first_pattern_witness:
  "pattern_at sample_frame 1 \<and> \<not> pattern_at sample_frame 0 \<and>
   1 + 40 \<le> length sample_frame \<and>
   parse_packet_info sample_frame =
     Inr \<lparr>header_start_index = 1, packet_length = 67305985,
          number_detected_objects = 2, number_tlv = 2, frame_number = 7,
          sub_frame_number = 1, time_cpu_cycles = 168496141\<rparr>"
proof -
  have len: "1 + 40 \<le> length sample_frame" by (simp add: sample_frame_def)
  have no: "\<not> pattern_at sample_frame 0"
    by (simp add: pattern_at_def sample_frame_def magic_pattern_def)
  have v: "u32_le_at sample_frame (1 + 12) = 67305985" "u32_le_at sample_frame (1 + 28) = 2"
    "u32_le_at sample_frame (1 + 32) = 2" "u32_le_at sample_frame (1 + 20) = 7"
    "u32_le_at sample_frame (1 + 36) = 1" "u32_le_at sample_frame (1 + 24) = 168496141"
    by (simp_all add: u32_le_at_def sample_frame_def)
  show ?thesis
    using header_fields_at_first_pattern[OF sample_frame_pattern len] len no
      sample_frame_pattern(1) unfolding v by simp
qed

lemma two_sync_frame_pattern:
  "pattern_at two_sync_frame 0" "\<forall>j<0. \<not> pattern_at two_sync_frame j"
  by (simp_all add: pattern_at_def two_sync_frame_def magic_pattern_def)

text \<open>
  Claim C7 as it is written speaks of any offset that holds the pattern. The buffer
  \<open>two_sync_frame\<close> holds it at offset 8 with 40 bytes available from there, but the
  scan stops at offset 0, and the \<open>packet_length\<close> of the parsed header is read at
  \<open>[12, 16)\<close>, not at \<open>[20, 24)\<close>.
\<close>

theorem header_fields_any_pattern_counterexample:
  "pattern_at two_sync_frame 8 \<and> 8 + 40 \<le> length two_sync_frame \<and>
   (\<exists>p. parse_packet_info two_sync_frame = Inr p \<and>
        header_start_index p = 0 \<and> packet_length p = 117966086 \<and>
        u32_le_at two_sync_frame (8 + 12) = 0 \<and>
        packet_length p \<noteq> u32_le_at two_sync_frame (8 + 12))"
proof -
  have len: "0 + 40 \<le> length two_sync_frame" by (simp add: two_sync_frame_def)
  have "find_header_start two_sync_frame = Inr (int 0)"
    using two_sync_frame_pattern by (rule find_header_start_first)
  from parse_packet_info_located[OF this len]
  have "parse_packet_info two_sync_frame =
          Inr (PacketInfo_init 0 (u32_le_at two_sync_frame 12) (u32_le_at two_sync_frame 28)
                (u32_le_at two_sync_frame 32) (u32_le_at two_sync_frame 20)
                (u32_le_at two_sync_frame 36) (u32_le_at two_sync_frame 24))"
    by simp
  moreover have "u32_le_at two_sync_frame 12 = 117966086" "u32_le_at two_sync_frame 20 = 0"
    by (simp_all add: u32_le_at_def two_sync_frame_def)
  moreover have "pattern_at two_sync_frame 8"
    by (simp add: pattern_at_def two_sync_frame_def magic_pattern_def)
  moreover have "8 + 40 \<le> length two_sync_frame" by (simp add: two_sync_frame_def)
  ultimately show ?thesis by (simp add: PacketInfo_init_def)
qed

section \<open>The validator\<close>

text \<open>
  Claim C5. For a header with \<open>header_start_index \<ge> 0\<close>: if
  \<open>number_detected_objects \<ge> 0\<close>, \<open>sub_frame_number \<le> 3\<close> and
  \<open>header_start_index + packet_length \<le> len(data)\<close> then \<open>get_status\<close> returns
  \<open>TC_PASS\<close>; the comparison \<open>header_start_index + packet_length + 8 < packet_length\<close>
  is false; and \<open>get_status\<close> gives the same result on any two buffers of the same
  length.
\<close>

theorem located_header_status:
  assumes "0 \<le> header_start_index p"
  shows "(0 \<le> number_detected_objects p \<and> sub_frame_number p \<le> 3 \<and>
          header_start_index p + packet_length p \<le> int (length data)
            \<longrightarrow> get_status data p = Inr TC_PASS) \<and>
         \<not> header_start_index p + packet_length p + 8 < packet_length p \<and>
         (length data' = length data \<longrightarrow> get_status data' p = get_status data p)"
  using assms by (simp add: get_status_def Let_def)

theorem located_header_status_witness:
  "0 \<le> header_start_index full_frame_header \<and>
   get_status two_sync_frame full_frame_header = Inr TC_PASS \<and>
   length (replicate 48 (0::byte)) = length two_sync_frame \<and>
   get_status (replicate 48 0) full_frame_header = Inr TC_PASS"
proof -
  have h: "header_start_index full_frame_header = 0"
    "packet_length full_frame_header = 48"
    "number_detected_objects full_frame_header = 2"
    "sub_frame_number full_frame_header = 1"
    by (simp_all add: full_frame_header_def PacketInfo_init_def)
  have len: "length two_sync_frame = 48" by (simp add: two_sync_frame_def)
  show ?thesis
    using located_header_status[of full_frame_header two_sync_frame "replicate 48 0"]
    by (simp add: h len)
qed

lemma sample_frame_header:
  "parse_packet_info sample_frame =
     Inr \<lparr>header_start_index = 1, packet_length = 67305985,
          number_detected_objects = 2, number_tlv = 2, frame_number = 7,
          sub_frame_number = 1, time_cpu_cycles = 168496141\<rparr>"
proof -
  have len: "1 + 40 \<le> length sample_frame" by (simp add: sample_frame_def)
  have v: "u32_le_at sample_frame (1 + 12) = 67305985" "u32_le_at sample_frame (1 + 28) = 2"
    "u32_le_at sample_frame (1 + 32) = 2" "u32_le_at sample_frame (1 + 20) = 7"
    "u32_le_at sample_frame (1 + 36) = 1" "u32_le_at sample_frame (1 + 24) = 168496141"
    by (simp_all add: u32_le_at_def sample_frame_def)
  have "find_header_start sample_frame = Inr (int 1)"
    using sample_frame_pattern by (rule find_header_start_first)
  from parse_packet_info_located[OF this len] show ?thesis
    unfolding v by (simp add: PacketInfo_init_def)
qed

text \<open>
  Claim C9. Whenever \<open>header_start_index + packet_length > len(data)\<close>, \<open>get_status\<close>
  returns \<open>TC_FAIL\<close>; and when the header parser returned such a header for the buffer,
  \<open>parser\<close> returns \<open>None\<close>.
\<close>

theorem truncated_frame_rejected:
  "(int (length data) < header_start_index p + packet_length p
      \<longrightarrow> get_status data p = Inr TC_FAIL) \<and>
   (parse_packet_info data = Inr p \<and>
    int (length data) < header_start_index p + packet_length p
      \<longrightarrow> parser ops data = Inr None)"
proof -
  have st: "get_status data p = Inr TC_FAIL"
    if "int (length data) < header_start_index p + packet_length p"
    using that by (simp add: get_status_def)
  then show ?thesis
    by (auto simp: parser_def bindE_simps)
qed

theorem truncated_frame_rejected_witness:
  "(\<exists>p. parse_packet_info sample_frame = Inr p \<and> header_start_index p = 1 \<and>
        packet_length p = 67305985 \<and> get_status sample_frame p = Inr TC_FAIL) \<and>
   length sample_frame = 41 \<and>
   (\<forall>ops :: 'f float_ops. parser ops sample_frame = Inr None)"
proof -
  let ?p = "\<lparr>header_start_index = 1, packet_length = 67305985,
          number_detected_objects = 2, number_tlv = 2, frame_number = 7,
          sub_frame_number = 1, time_cpu_cycles = 168496141\<rparr>"
  have len: "length sample_frame = 41" by (simp add: sample_frame_def)
  have "get_status sample_frame ?p = Inr TC_FAIL" "parser ops sample_frame = Inr None" for ops :: "'f float_ops"
    using truncated_frame_rejected[of sample_frame ?p ops] sample_frame_header
    by (simp_all add: len)
  then show ?thesis using sample_frame_header len by simp
qed

section \<open>Freshly allocated objects\<close>

lemma allocate_objects_append:
  "allocate_objects ops xs acc = acc @ replicate (length xs) (DetectedObject_default ops)"
  by (induction xs arbitrary: acc) (simp_all add: replicate_append_same)

lemma allocate_objects_range:
  "allocate_objects ops (py_range n) [] = replicate (nat n) (DetectedObject_default ops)"
  by (simp add: allocate_objects_append py_range_def)

lemma unknown_tlv_frame_header:
  "parse_packet_info unknown_tlv_frame =
     Inr \<lparr>header_start_index = 0, packet_length = 56,
          number_detected_objects = 1, number_tlv = 2, frame_number = 7,
          sub_frame_number = 0, time_cpu_cycles = 168496141\<rparr>"
proof -
  have len: "0 + 40 \<le> length unknown_tlv_frame" by (simp add: unknown_tlv_frame_def)
  have v: "u32_le_at unknown_tlv_frame (0 + 12) = 56" "u32_le_at unknown_tlv_frame (0 + 28) = 1"
    "u32_le_at unknown_tlv_frame (0 + 32) = 2" "u32_le_at unknown_tlv_frame (0 + 20) = 7"
    "u32_le_at unknown_tlv_frame (0 + 36) = 0" "u32_le_at unknown_tlv_frame (0 + 24) = 168496141"
    by (simp_all add: u32_le_at_def unknown_tlv_frame_def)
  have "pattern_at unknown_tlv_frame 0" "\<forall>j<0. \<not> pattern_at unknown_tlv_frame j"
    by (simp_all add: pattern_at_def unknown_tlv_frame_def magic_pattern_def)
  then have "find_header_start unknown_tlv_frame = Inr (int 0)"
    by (rule find_header_start_first)
  from parse_packet_info_located[OF this len] show ?thesis
    unfolding v by (simp add: PacketInfo_init_def)
qed

lemma unknown_tlv_frame_tlvs:
  "get_uint32 (py_slice unknown_tlv_frame 40 44) = Inr 2"
  "get_uint32 (py_slice unknown_tlv_frame 44 48) = Inr 0"
  "get_uint32 (py_slice unknown_tlv_frame 48 52) = Inr 3"
  "get_uint32 (py_slice unknown_tlv_frame 52 56) = Inr 0"
  by (simp_all add: py_slice_def slice_bound_def unknown_tlv_frame_def get_uint32_four)

text \<open>
  Claim C1. \<open>_parse_tlvs\<close> first allocates \<open>n\<close> objects, each the result of
  \<open>DetectedObject()\<close>. In that object every attribute is \<open>0.0\<close> except
  \<open>computed_range\<close>, which holds the built-in class \<open>range\<close> and not \<open>0.0\<close>; the
  complete frame \<open>unknown_tlv_frame\<close> makes \<open>parser\<close> return such an object.
\<close>

theorem fresh_object_computed_range:
  "allocate_objects ops (py_range n) [] = replicate (nat n) (DetectedObject_default ops) \<and>
   DetectedObject_default ops =
     \<lparr>obj_x = PyFloat (lit_zero ops), obj_y = PyFloat (lit_zero ops),
      obj_z = PyFloat (lit_zero ops), obj_v = PyFloat (lit_zero ops),
      computed_range = PyBuiltinRange,
      azimuth = PyFloat (lit_zero ops), elev_angle = PyFloat (lit_zero ops),
      snr = PyFloat (lit_zero ops), noise = PyFloat (lit_zero ops)\<rparr> \<and>
   computed_range (DetectedObject_default ops) \<noteq> PyFloat (lit_zero ops) \<and>
   parser ops unknown_tlv_frame = Inr (Some [DetectedObject_default ops])"
proof -
  have "get_status unknown_tlv_frame
          \<lparr>header_start_index = 0, packet_length = 56,
           number_detected_objects = 1, number_tlv = 2, frame_number = 7,
           sub_frame_number = 0, time_cpu_cycles = 168496141\<rparr> = Inr TC_PASS"
    by (simp add: get_status_def unknown_tlv_frame_def)
  moreover have "parse_tlvs ops unknown_tlv_frame
          \<lparr>header_start_index = 0, packet_length = 56,
           number_detected_objects = 1, number_tlv = 2, frame_number = 7,
           sub_frame_number = 0, time_cpu_cycles = 168496141\<rparr> =
          Inr [DetectedObject_default ops]"
    by (simp add: parse_tlvs_def Let_def unknown_tlv_frame_tlvs bindE_simps
        allocate_objects_range)
  ultimately have "parser ops unknown_tlv_frame = Inr (Some [DetectedObject_default ops])"
    by (simp add: parser_def unknown_tlv_frame_header bindE_simps)
  then show ?thesis
    by (simp add: allocate_objects_range DetectedObject_default_def DetectedObject_init_def
        Let_def)
qed

section \<open>Reads past the end of the buffer\<close>

lemma short_window_raises:
  "check_magic_pattern [2] = Inl IndexError"
  "check_magic_pattern [2, 1] = Inl IndexError"
  "check_magic_pattern [0, 2, 1] = Inr 0"
  "check_magic_pattern [] = Inl IndexError"
  by (simp_all add: check_magic_pattern_def byte_is_def py_index_def bindE_simps)

lemma header_only_frame_header:
  "parse_packet_info header_only_frame =
     Inr \<lparr>header_start_index = 0, packet_length = 40,
          number_detected_objects = 0, number_tlv = 0, frame_number = 7,
          sub_frame_number = 0, time_cpu_cycles = 168496141\<rparr>"
proof -
  have len: "0 + 40 \<le> length header_only_frame" by (simp add: header_only_frame_def)
  have v: "u32_le_at header_only_frame (0 + 12) = 40" "u32_le_at header_only_frame (0 + 28) = 0"
    "u32_le_at header_only_frame (0 + 32) = 0" "u32_le_at header_only_frame (0 + 20) = 7"
    "u32_le_at header_only_frame (0 + 36) = 0" "u32_le_at header_only_frame (0 + 24) = 168496141"
    by (simp_all add: u32_le_at_def header_only_frame_def)
  have "pattern_at header_only_frame 0" "\<forall>j<0. \<not> pattern_at header_only_frame j"
    by (simp_all add: pattern_at_def header_only_frame_def magic_pattern_def)
  then have "find_header_start header_only_frame = Inr (int 0)"
    by (rule find_header_start_first)
  from parse_packet_info_located[OF this len] show ?thesis
    unfolding v by (simp add: PacketInfo_init_def)
qed

text \<open>
  Claim C2. \<open>parser\<close> raises \<open>IndexError\<close> on the one-byte buffer \<open>[2]\<close> (during
  the scan), on the eight bytes of the pattern alone (while reading the header fields),
  and on \<open>header_only_frame\<close>, whose header passes \<open>get_status\<close> (while reading the
  first block).
\<close>

theorem parser_raises_index_error:
  "parser ops [2] = Inl IndexError \<and>
   parser ops magic_pattern = Inl IndexError \<and>
   get_status header_only_frame
     \<lparr>header_start_index = 0, packet_length = 40,
      number_detected_objects = 0, number_tlv = 0, frame_number = 7,
      sub_frame_number = 0, time_cpu_cycles = 168496141\<rparr> = Inr TC_PASS \<and>
   parser ops header_only_frame = Inl IndexError"
proof -
  have "py_slice [2] 0 8 = [2]"
    by (simp add: py_slice_def slice_bound_def)
  then have a: "parser ops [2] = Inl IndexError"
    by (simp add: parser_def parse_packet_info_def find_header_start_def bindE_simps
        short_window_raises)
  have "pattern_at magic_pattern 0" "\<forall>j<0. \<not> pattern_at magic_pattern j"
    by (simp_all add: pattern_at_def magic_pattern_def)
  then have "find_header_start magic_pattern = Inr 0"
    using find_header_start_first by fastforce
  moreover have "py_slice magic_pattern 12 16 = []"
    by (simp add: py_slice_def slice_bound_def magic_pattern_def)
  moreover have "get_uint32 [] = Inl IndexError"
    by (simp add: get_uint32_def py_index_def bindE_simps)
  ultimately have b: "parser ops magic_pattern = Inl IndexError"
    by (simp add: parser_def parse_packet_info_def bindE_simps)
  have st: "get_status header_only_frame
     \<lparr>header_start_index = 0, packet_length = 40,
      number_detected_objects = 0, number_tlv = 0, frame_number = 7,
      sub_frame_number = 0, time_cpu_cycles = 168496141\<rparr> = Inr TC_PASS"
    by (simp add: get_status_def header_only_frame_def)
  have "py_slice header_only_frame 40 44 = []"
    by (simp add: py_slice_def slice_bound_def header_only_frame_def)
  then have "parse_tlvs ops header_only_frame
     \<lparr>header_start_index = 0, packet_length = 40,
      number_detected_objects = 0, number_tlv = 0, frame_number = 7,
      sub_frame_number = 0, time_cpu_cycles = 168496141\<rparr> = Inl IndexError"
    by (simp add: parse_tlvs_def Let_def get_uint32_def py_index_def bindE_simps)
  then have c: "parser ops header_only_frame = Inl IndexError"
    by (simp add: parser_def header_only_frame_header st bindE_simps)
  show ?thesis using a b st c by simp
qed

subsection \<open>Buffers without the pattern\<close>

text \<open>
  \<open>check_magic_pattern\<close> returns 1 only on a window that starts with the eight bytes of
  the pattern, and the only exception the scan raises is \<open>IndexError\<close>. So on a buffer
  that holds the pattern nowhere, either the scan raises, or it ends with
  \<open>header_start_index = -1\<close>, the header is the sentinel, \<open>get_status\<close> returns
  \<open>TC_FAIL\<close> and \<open>parser\<close> returns \<open>None\<close>.
\<close>

lemma take8_nth:
  assumes "8 \<le> length xs"
  shows "take 8 xs = [xs ! 0, xs ! 1, xs ! 2, xs ! 3, xs ! 4, xs ! 5, xs ! 6, xs ! 7]"
proof -
  have "take (4 + 4) xs = take 4 (drop 0 xs) @ take 4 (drop 4 xs)"
    unfolding take_add by simp
  moreover have "take 4 (drop 0 xs) = [xs ! 0, xs ! 1, xs ! 2, xs ! 3]"
    using take4_drop[of 0 xs] assms by (simp add: numeral_2_eq_2)
  moreover have "take 4 (drop 4 xs) = [xs ! 4, xs ! 5, xs ! 6, xs ! 7]"
    using take4_drop[of 4 xs] assms by simp
  ultimately show ?thesis by simp
qed

lemma byte_is_found:
  assumes "byte_is w k c rest = Inr 1"
  shows "k < length w \<and> uint (w ! k) = c \<and> rest = Inr 1"
  using assms by (auto simp: byte_is_def py_index_def bindE_def split: if_splits)

lemma check_magic_pattern_found:
  assumes "check_magic_pattern w = Inr 1"
  shows "8 \<le> length w \<and> take 8 w = magic_pattern"
proof -
  note b = byte_is_found
  from assms have 0: "uint (w ! 0) = 2" and r0: "byte_is w 1 1 (byte_is w 2 4 (byte_is w 3 3
    (byte_is w 4 6 (byte_is w 5 5 (byte_is w 6 8 (byte_is w 7 7 (Inr 1))))))) = Inr 1"
    unfolding check_magic_pattern_def by (auto dest: b)
  from r0 have 1: "uint (w ! 1) = 1" and r1: "byte_is w 2 4 (byte_is w 3 3
    (byte_is w 4 6 (byte_is w 5 5 (byte_is w 6 8 (byte_is w 7 7 (Inr 1)))))) = Inr 1"
    by (auto dest: b)
  from r1 have 2: "uint (w ! 2) = 4" and r2: "byte_is w 3 3
    (byte_is w 4 6 (byte_is w 5 5 (byte_is w 6 8 (byte_is w 7 7 (Inr 1))))) = Inr 1"
    by (auto dest: b)
  from r2 have 3: "uint (w ! 3) = 3" and r3:
    "byte_is w 4 6 (byte_is w 5 5 (byte_is w 6 8 (byte_is w 7 7 (Inr 1)))) = Inr 1"
    by (auto dest: b)
  from r3 have 4: "uint (w ! 4) = 6" and r4:
    "byte_is w 5 5 (byte_is w 6 8 (byte_is w 7 7 (Inr 1))) = Inr 1"
    by (auto dest: b)
  from r4 have 5: "uint (w ! 5) = 5" and r5: "byte_is w 6 8 (byte_is w 7 7 (Inr 1)) = Inr 1"
    by (auto dest: b)
  from r5 have 6: "uint (w ! 6) = 8" and r6: "byte_is w 7 7 (Inr 1) = Inr 1"
    by (auto dest: b)
  from r6 have 7: "uint (w ! 7) = 7" and len: "7 < length w"
    by (auto dest: b)
  from len have l8: "8 \<le> length w" by simp
  show ?thesis
    using 0 1 2 3 4 5 6 7 l8 unfolding take8_nth[OF l8] magic_pattern_def
    by (simp add: uint_byte_eq_iff)
qed

lemma check_magic_pattern_error:
  "check_magic_pattern w = Inl e \<Longrightarrow> e = IndexError"
  by (auto simp: check_magic_pattern_def byte_is_def py_index_def bindE_def split: if_splits)

lemma window_found:
  assumes "check_magic_pattern (py_slice data (int i) (int i + 8)) = Inr 1"
  shows "pattern_at data i"
proof -
  have sl: "py_slice data (int i) (int i + 8) = take 8 (drop i data)"
    by (rule py_slice_numeral)
  from check_magic_pattern_found[OF assms]
  have len: "8 \<le> length (take 8 (drop i data))"
    and eq: "take 8 (take 8 (drop i data)) = magic_pattern"
    unfolding sl by blast+
  from len have "i + 8 \<le> length data" by simp
  moreover from eq have "take 8 (drop i data) = magic_pattern" by simp
  ultimately show ?thesis unfolding pattern_at_def by blast
qed

lemma scan_loop_no_pattern:
  assumes "\<forall>i. \<not> pattern_at data i" and "scan_loop data xs = Inr h"
  shows "h = - 1"
  using assms(2)
proof (induction xs)
  case Nil
  then show ?case by simp
next
  case (Cons index rest)
  show ?case
  proof (cases "check_magic_pattern (py_slice data (int index) (int index + 8))")
    case (Inl e)
    with Cons.prems show ?thesis by (simp add: bindE_simps)
  next
    case (Inr found)
    have "found \<noteq> 1" using Inr window_found assms(1) by blast
    with Cons Inr show ?thesis by (simp add: bindE_simps)
  qed
qed

lemma no_pattern_sentinel:
  assumes "\<forall>i. \<not> pattern_at data i" and "find_header_start data = Inr h"
  shows "h = - 1 \<and> parse_packet_info data = Inr PacketInfo_default \<and>
         get_status data PacketInfo_default = Inr TC_FAIL \<and>
         parser ops data = Inr None"
proof -
  have h: "h = - 1"
    using assms scan_loop_no_pattern unfolding find_header_start_def by blast
  then have p: "parse_packet_info data = Inr PacketInfo_default"
    using assms(2) by (simp add: parse_packet_info_def bindE_simps)
  have s: "get_status data PacketInfo_default = Inr TC_FAIL"
    by (simp add: get_status_def PacketInfo_default_def PacketInfo_init_def)
  show ?thesis using h p s by (simp add: parser_def bindE_simps)
qed

lemma scan_loop_error:
  "scan_loop data xs = Inl e \<Longrightarrow> e = IndexError"
proof (induction xs)
  case Nil
  then show ?case by simp
next
  case (Cons index rest)
  show ?case
  proof (cases "check_magic_pattern (py_slice data (int index) (int index + 8))")
    case (Inl e')
    with Cons.prems check_magic_pattern_error show ?thesis by (simp add: bindE_simps)
  next
    case (Inr found)
    with Cons show ?thesis by (simp add: bindE_simps split: if_splits)
  qed
qed

lemma no_pattern_none_or_index_error:
  assumes "\<forall>i. \<not> pattern_at data i"
  shows "parser ops data = Inr None \<or> parser ops data = Inl IndexError"
proof (cases "find_header_start data")
  case (Inl e)
  then have "e = IndexError" unfolding find_header_start_def by (rule scan_loop_error)
  with Inl show ?thesis by (simp add: parser_def parse_packet_info_def bindE_simps)
next
  case (Inr h)
  with assms no_pattern_sentinel show ?thesis by blast
qed

text \<open>
  Claim C3. The buffer \<open>partial_pattern_buffer\<close> holds the pattern at no offset, and on
  it the scan, the header parser and \<open>parser\<close> raise \<open>IndexError\<close>: no sentinel
  header is produced and \<open>None\<close> is not returned.
\<close>

theorem partial_pattern_raises:
  "(\<forall>i. \<not> pattern_at partial_pattern_buffer i) \<and>
   find_header_start partial_pattern_buffer = Inl IndexError \<and>
   parse_packet_info partial_pattern_buffer = Inl IndexError \<and>
   parser ops partial_pattern_buffer = Inl IndexError"
proof -
  have s: "py_slice partial_pattern_buffer 0 8 = [0, 2, 1]"
    "py_slice partial_pattern_buffer 1 9 = [2, 1]"
    by (simp_all add: py_slice_def slice_bound_def partial_pattern_buffer_def)
  have "[0..<length partial_pattern_buffer] = [0, 1, 2]"
    by (simp add: partial_pattern_buffer_def upt_rec)
  then have "find_header_start partial_pattern_buffer = Inl IndexError"
    by (simp add: find_header_start_def s short_window_raises bindE_simps)
  moreover have "\<forall>i. \<not> pattern_at partial_pattern_buffer i"
    by (simp add: pattern_at_def partial_pattern_buffer_def)
  ultimately show ?thesis
    by (simp add: parser_def parse_packet_info_def bindE_simps)
qed

section \<open>The check of the next frame's pattern\<close>

text \<open>
  The fifth check of \<open>get_status\<close> looks at the window
  \<open>data[next:next+8]\<close>, \<open>next = header_start_index + packet_length\<close>, only when
  \<open>next + 8 < packet_length\<close>, that is when \<open>header_start_index < -8\<close>. For a header
  that passes the first four checks, when the comparison holds and the window has eight
  bytes that differ from the pattern, the result is \<open>TC_FAIL\<close>.
\<close>

lemma full_window_mismatch_fails:
  assumes "header_start_index p \<noteq> - 1"
    and "0 \<le> number_detected_objects p"
    and "sub_frame_number p \<le> 3"
    and "header_start_index p + packet_length p \<le> int (length data)"
    and "header_start_index p + packet_length p + 8 < packet_length p"
    and "length (py_slice data (header_start_index p + packet_length p)
                   (header_start_index p + packet_length p + 8)) = 8"
    and "py_slice data (header_start_index p + packet_length p)
           (header_start_index p + packet_length p + 8) \<noteq> magic_pattern"
  shows "get_status data p = Inr TC_FAIL"
proof -
  have "check_magic_pattern (py_slice data (header_start_index p + packet_length p)
           (header_start_index p + packet_length p + 8)) = Inr 0"
    using check_magic_pattern_full[OF assms(6)] assms(7) by simp
  then show ?thesis
    using assms(1-5) by (simp add: get_status_def Let_def bindE_simps)
qed








end
